theory Spec2Isabelle
  imports Main "HOL-Library.Word"
begin

unbundle bit_operations_syntax

section \<open>JavaScript values\<close>

text \<open>
  The values the two pages handle are what \<^verbatim>\<open>response.json()\<close> yields, the strings of the
  component state, and \<^verbatim>\<open>undefined\<close> for a missing property. A number is an IEEE-754
  double, kept as its 64 bits. The members of an object are listed in the order of the JSON
  text; a later member with the same key overrides an earlier one.
\<close>

datatype js =
    Undefined
  | JNull
  | JBool bool
  | JNum "64 word"
  | JStr string
  | JArr "js list"
  | JObj "(string \<times> js) list"

datatype js_error = FetchFailed | SyntaxError | TypeError

definition number_is_zero :: "64 word \<Rightarrow> bool" where
  "number_is_zero w = (w AND 0x7FFFFFFFFFFFFFFF = 0)"

definition number_is_nan :: "64 word \<Rightarrow> bool" where
  "number_is_nan w = (0x7FF0000000000000 < (w AND 0x7FFFFFFFFFFFFFFF))"

text \<open>JavaScript's ToBoolean.\<close>

fun truthy :: "js \<Rightarrow> bool" where
  "truthy Undefined = False"
| "truthy JNull = False"
| "truthy (JBool b) = b"
| "truthy (JNum w) = (\<not> number_is_zero w \<and> \<not> number_is_nan w)"
| "truthy (JStr s) = (s \<noteq> [])"
| "truthy (JArr xs) = True"
| "truthy (JObj kvs) = True"

text \<open>The operator \<^verbatim>\<open>a || b\<close> on values already computed.\<close>

definition js_or :: "js \<Rightarrow> js \<Rightarrow> js" where
  "js_or a b = (if truthy a then a else b)"

text \<open>
  Property read \<^verbatim>\<open>data.k\<close>, for the names the pages read (\<^verbatim>\<open>username\<close>, \<^verbatim>\<open>detail\<close>,
  \<^verbatim>\<open>message\<close>), which no built-in prototype defines: on \<^verbatim>\<open>null\<close> and \<^verbatim>\<open>undefined\<close> the
  read throws a TypeError, on an object it gives the member or \<^verbatim>\<open>undefined\<close>, on every
  other value \<^verbatim>\<open>undefined\<close>.
\<close>

fun get_prop :: "js \<Rightarrow> string \<Rightarrow> js_error + js" where
  "get_prop Undefined k = Inl TypeError"
| "get_prop JNull k = Inl TypeError"
| "get_prop (JObj kvs) k = Inr (case map_of (rev kvs) k of None \<Rightarrow> Undefined | Some v \<Rightarrow> v)"
| "get_prop (JBool b) k = Inr Undefined"
| "get_prop (JNum w) k = Inr Undefined"
| "get_prop (JStr s) k = Inr Undefined"
| "get_prop (JArr xs) k = Inr Undefined"

section \<open>The fetch interface\<close>

text \<open>
  A call of \<^verbatim>\<open>fetch\<close> either rejects (no response) or resolves to a response with a
  status and a body; \<^verbatim>\<open>response.json()\<close> rejects with a SyntaxError on a body that is not
  JSON. \<^verbatim>\<open>response.ok\<close> is the Fetch standard's: the status is in the range 200 to 299.
\<close>

datatype body = Malformed | Parsed js

datatype fetch_outcome = Rejected | Response nat body

definition response_ok :: "nat \<Rightarrow> bool" where
  "response_ok st = (200 \<le> st \<and> st \<le> 299)"

fun response_json :: "body \<Rightarrow> js_error + js" where
  "response_json Malformed = Inl SyntaxError"
| "response_json (Parsed v) = Inr v"

record request =
  req_url :: string
  req_method :: string
  req_credentials :: string
  req_body :: "(string \<times> string) option"

definition API_BASE :: string where
  "API_BASE = ''/api/v1''"

section \<open>Statements that complete abruptly\<close>

text \<open>
  A block ends normally, by \<^verbatim>\<open>return\<close> or by a throw; the state it has built up so far
  stays. \<^verbatim>\<open>catch\<close> runs its handler on a throw only, \<^verbatim>\<open>finally\<close> runs on every
  completion and keeps it.
\<close>

datatype completion = Normal | Return | Throw js_error

definition try_catch :: "'s \<times> completion \<Rightarrow> (js_error \<Rightarrow> 's \<Rightarrow> 's \<times> completion) \<Rightarrow> 's \<times> completion" where
  "try_catch r handler = (case r of (s, Throw err) \<Rightarrow> handler err s | (s, c) \<Rightarrow> (s, c))"

definition try_finally :: "'s \<times> completion \<Rightarrow> ('s \<Rightarrow> 's) \<Rightarrow> 's \<times> completion" where
  "try_finally r cleanup = (case r of (s, c) \<Rightarrow> (cleanup s, c))"

section \<open>State shared by the two pages\<close>

text \<open>
  Both components hold \<^verbatim>\<open>activeTab\<close>, \<^verbatim>\<open>username\<close>, \<^verbatim>\<open>password\<close>, \<^verbatim>\<open>loading\<close> and
  \<^verbatim>\<open>checkingAuth\<close>. The effects on the browser are part of the state: the last value
  assigned to \<^verbatim>\<open>window.location.href\<close> (\<open>None\<close> while nothing was assigned) and the calls
  of \<^verbatim>\<open>fetch\<close> in the order they were made.
\<close>

record page_state =
  activeTab :: string
  username :: string
  password :: string
  loading :: bool
  checkingAuth :: bool
  location_href :: "string option"
  fetches :: "request list"

subsection \<open>checkAuth (the same text in both files)\<close>

definition whoami_request :: request where
  "whoami_request =
     \<lparr>req_url = API_BASE @ ''/auth/whoami'', req_method = ''GET'',
      req_credentials = ''include'', req_body = None\<rparr>"

definition checkAuth_begin :: "'a page_state_scheme \<Rightarrow> 'a page_state_scheme" where
  "checkAuth_begin s = s\<lparr>fetches := fetches s @ [whoami_request]\<rparr>"

definition checkAuth_try :: "fetch_outcome \<Rightarrow> 'a page_state_scheme \<Rightarrow> 'a page_state_scheme \<times> completion" where
  "checkAuth_try oc s =
     (case oc of
        Rejected \<Rightarrow> (s, Throw FetchFailed)
      | Response st b \<Rightarrow>
          if response_ok st then
            (case response_json b of
               Inl err \<Rightarrow> (s, Throw err)
             | Inr data \<Rightarrow>
                 (case get_prop data ''username'' of
                    Inl err \<Rightarrow> (s, Throw err)
                  | Inr u \<Rightarrow>
                      if truthy u then (s\<lparr>location_href := Some ''/home''\<rparr>, Return)
                      else (s, Normal)))
          else (s, Normal))"

definition checkAuth_resume :: "fetch_outcome \<Rightarrow> 'a page_state_scheme \<Rightarrow> 'a page_state_scheme \<times> completion" where
  "checkAuth_resume oc s =
     try_finally
       (try_catch (checkAuth_try oc s) (\<lambda>err s'. (s', Normal)))
       (\<lambda>s'. s'\<lparr>checkingAuth := False\<rparr>)"

definition checkAuth :: "fetch_outcome \<Rightarrow> 'a page_state_scheme \<Rightarrow> 'a page_state_scheme \<times> completion" where
  "checkAuth oc s = checkAuth_resume oc (checkAuth_begin s)"

subsection \<open>The success test of handleSubmit\<close>

definition submit_success :: "nat \<Rightarrow> bool" where
  "submit_success st = (response_ok st \<or> st = 201)"

text \<open>The specification's single predicate: the status is in the 2xx range.\<close>

definition spec_status_2xx :: "nat \<Rightarrow> bool" where
  "spec_status_2xx st = (st div 100 = 2)"

definition endpoint :: "string \<Rightarrow> string" where
  "endpoint tab = (if tab = ''login'' then ''/auth/login'' else ''/auth/register'')"

definition submit_request :: "'a page_state_scheme \<Rightarrow> request" where
  "submit_request s =
     \<lparr>req_url = API_BASE @ endpoint (activeTab s), req_method = ''POST'',
      req_credentials = ''include'', req_body = Some (username s, password s)\<rparr>"

definition failed_text :: "string \<Rightarrow> string" where
  "failed_text tab = (if tab = ''login'' then ''Login'' else ''Registration'') @ '' failed''"

text \<open>
  \<^verbatim>\<open>data.detail || data.message || `... failed`\<close>: the reads go left to right and stop at
  the first truthy value; a read on \<^verbatim>\<open>null\<close> throws.
\<close>

definition error_message :: "string \<Rightarrow> js \<Rightarrow> js_error + js" where
  "error_message tab data =
     (case get_prop data ''detail'' of
        Inl err \<Rightarrow> Inl err
      | Inr d \<Rightarrow>
          if truthy d then Inr d
          else (case get_prop data ''message'' of
                  Inl err \<Rightarrow> Inl err
                | Inr m \<Rightarrow> Inr (js_or m (JStr (failed_text tab)))))"

text \<open>\<^verbatim>\<open>response.json().catch(() => ({}))\<close>\<close>

definition json_or_empty :: "body \<Rightarrow> js" where
  "json_or_empty b = (case response_json b of Inl err \<Rightarrow> JObj [] | Inr v \<Rightarrow> v)"

section \<open>The plain-styled page (login-register-tailwind.tsx)\<close>

record tw_state = page_state +
  error :: js

definition tw_initial :: tw_state where
  "tw_initial =
     \<lparr>activeTab = ''login'', username = [], password = [], loading = False,
      checkingAuth = True, location_href = None, fetches = [], error = JStr []\<rparr>"

text \<open>
  handleSubmit up to its \<^verbatim>\<open>await fetch(...)\<close>, and from the outcome of that call on. The
  continuation sees the \<^verbatim>\<open>activeTab\<close> of the render that created the handler.
\<close>

definition tw_handleSubmit_begin :: "tw_state \<Rightarrow> tw_state" where
  "tw_handleSubmit_begin s =
     s\<lparr>error := JStr [], loading := True, fetches := fetches s @ [submit_request s]\<rparr>"

definition tw_handleSubmit_try :: "string \<Rightarrow> fetch_outcome \<Rightarrow> tw_state \<Rightarrow> tw_state \<times> completion" where
  "tw_handleSubmit_try tab oc s =
     (case oc of
        Rejected \<Rightarrow> (s, Throw FetchFailed)
      | Response st b \<Rightarrow>
          if submit_success st then (s\<lparr>location_href := Some ''/home''\<rparr>, Normal)
          else (case error_message tab (json_or_empty b) of
                  Inl err \<Rightarrow> (s, Throw err)
                | Inr m \<Rightarrow> (s\<lparr>error := m\<rparr>, Normal)))"

definition tw_handleSubmit_resume :: "string \<Rightarrow> fetch_outcome \<Rightarrow> tw_state \<Rightarrow> tw_state \<times> completion" where
  "tw_handleSubmit_resume tab oc s =
     try_finally
       (try_catch (tw_handleSubmit_try tab oc s)
          (\<lambda>err s'. (s'\<lparr>error := JStr ''Network error. Please try again.''\<rparr>, Normal)))
       (\<lambda>s'. s'\<lparr>loading := False\<rparr>)"

definition tw_handleSubmit :: "fetch_outcome \<Rightarrow> tw_state \<Rightarrow> tw_state \<times> completion" where
  "tw_handleSubmit oc s = tw_handleSubmit_resume (activeTab s) oc (tw_handleSubmit_begin s)"

text \<open>The \<^verbatim>\<open>onClick\<close> of the two tab buttons.\<close>

definition tw_selectTab :: "string \<Rightarrow> tw_state \<Rightarrow> tw_state" where
  "tw_selectTab tab s = s\<lparr>activeTab := tab, error := JStr []\<rparr>"

text \<open>
  What the component returns: the spinner while \<^verbatim>\<open>checkingAuth\<close>, else the form, of which
  the model keeps the error box (\<^verbatim>\<open>{error && ...}\<close>), the \<^verbatim>\<open>disabled\<close> attributes and the
  label of the button.
\<close>

record tw_form =
  tw_errorBox :: "js option"
  tw_usernameDisabled :: bool
  tw_passwordDisabled :: bool
  tw_buttonDisabled :: bool
  tw_buttonLabel :: string

datatype 'f view = Loader | Form 'f

definition tw_render :: "tw_state \<Rightarrow> tw_form view" where
  "tw_render s =
     (if checkingAuth s then Loader
      else Form
        \<lparr>tw_errorBox = (if truthy (error s) then Some (error s) else None),
         tw_usernameDisabled = loading s,
         tw_passwordDisabled = loading s,
         tw_buttonDisabled = loading s,
         tw_buttonLabel =
           (if loading s then (if activeTab s = ''login'' then ''Logging in...'' else ''Registering...'')
            else (if activeTab s = ''login'' then ''Login'' else ''Register''))\<rparr>)"

section \<open>The component-library page (login-register-rsuite.tsx)\<close>

datatype toast_type = Warning | Success | Error

record toast =
  toast_type :: toast_type
  toast_content :: js
  toast_placement :: string
  toast_duration :: nat

text \<open>
  The page has no error state: messages go to the toaster, kept as the list of what was
  pushed. \<^verbatim>\<open>setTimeout\<close> with a callback that assigns \<^verbatim>\<open>window.location.href\<close> is kept as
  the delay and the address.
\<close>

record rs_state = page_state +
  toasts :: "toast list"
  timeouts :: "(nat \<times> string) list"

definition rs_initial :: rs_state where
  "rs_initial =
     \<lparr>activeTab = ''login'', username = [], password = [], loading = False,
      checkingAuth = True, location_href = None, fetches = [], toasts = [], timeouts = []\<rparr>"

definition push_toast :: "toast_type \<Rightarrow> js \<Rightarrow> nat \<Rightarrow> rs_state \<Rightarrow> rs_state" where
  "push_toast ty msg dur s =
     s\<lparr>toasts := toasts s @
        [\<lparr>toast_type = ty, toast_content = msg, toast_placement = ''topCenter'',
          toast_duration = dur\<rparr>]\<rparr>"

text \<open>
  handleSubmit up to its \<^verbatim>\<open>await\<close>: \<open>Return\<close> when the emptiness check left the handler,
  \<open>Normal\<close> when the request was issued.
\<close>

definition rs_handleSubmit_begin :: "rs_state \<Rightarrow> rs_state \<times> completion" where
  "rs_handleSubmit_begin s =
     (if username s = [] \<or> password s = [] then
        (push_toast Warning (JStr ''Please fill in all fields'') 3000 s, Return)
      else (s\<lparr>loading := True, fetches := fetches s @ [submit_request s]\<rparr>, Normal))"

definition rs_handleSubmit_try :: "string \<Rightarrow> fetch_outcome \<Rightarrow> rs_state \<Rightarrow> rs_state \<times> completion" where
  "rs_handleSubmit_try tab oc s =
     (case oc of
        Rejected \<Rightarrow> (s, Throw FetchFailed)
      | Response st b \<Rightarrow>
          if submit_success st then
            (let s1 = push_toast Success
                        (JStr (if tab = ''login'' then ''Login successful!'' else ''Registration successful!''))
                        2000 s
             in (s1\<lparr>timeouts := timeouts s1 @ [(500, ''/home'')]\<rparr>, Normal))
          else (case error_message tab (json_or_empty b) of
                  Inl err \<Rightarrow> (s, Throw err)
                | Inr errorMsg \<Rightarrow> (push_toast Error errorMsg 4000 s, Normal)))"

definition rs_handleSubmit_resume :: "string \<Rightarrow> fetch_outcome \<Rightarrow> rs_state \<Rightarrow> rs_state \<times> completion" where
  "rs_handleSubmit_resume tab oc s =
     try_finally
       (try_catch (rs_handleSubmit_try tab oc s)
          (\<lambda>err s'. (push_toast Error (JStr ''Network error. Please try again.'') 4000 s', Normal)))
       (\<lambda>s'. s'\<lparr>loading := False\<rparr>)"

definition rs_handleSubmit :: "fetch_outcome \<Rightarrow> rs_state \<Rightarrow> rs_state \<times> completion" where
  "rs_handleSubmit oc s =
     (case rs_handleSubmit_begin s of
        (s1, Normal) \<Rightarrow> rs_handleSubmit_resume (activeTab s) oc s1
      | (s1, c) \<Rightarrow> (s1, c))"

text \<open>\<^verbatim>\<open>onSelect={setActiveTab}\<close> of the Nav.\<close>

definition rs_selectTab :: "string \<Rightarrow> rs_state \<Rightarrow> rs_state" where
  "rs_selectTab tab s = s\<lparr>activeTab := tab\<rparr>"

record rs_form =
  rs_usernameDisabled :: bool
  rs_passwordDisabled :: bool
  rs_buttonLoading :: bool
  rs_buttonLabel :: string

definition rs_render :: "rs_state \<Rightarrow> rs_form view" where
  "rs_render s =
     (if checkingAuth s then Loader
      else Form
        \<lparr>rs_usernameDisabled = loading s,
         rs_passwordDisabled = loading s,
         rs_buttonLoading = loading s,
         rs_buttonLabel = (if activeTab s = ''login'' then ''Login'' else ''Register'')\<rparr>)"

section \<open>The pages as event-driven systems\<close>

text \<open>
  The handlers are reached only through the controls of the rendered view. The events are
  the clicks on the two tabs, input into the two fields, a key pressed in a field and the
  click on the submit control. An event on a disabled control reaches no handler (HTML).
  Around a page, the system keeps what is awaited: whether the probe is outstanding, and
  for each submission request without an outcome the \<^verbatim>\<open>activeTab\<close> its continuation
  has captured.
\<close>

datatype ui_event =
    ClickLoginTab
  | ClickRegisterTab
  | ChangeUsername string
  | ChangePassword string
  | KeyDownUsername string
  | KeyDownPassword string
  | ClickSubmit

datatype action =
    Ui ui_event
  | ProbeSettles fetch_outcome
  | SubmitSettles nat fetch_outcome

record 'st system =
  page :: 'st
  probe_pending :: bool
  in_flight :: "string list"

definition settle :: "nat \<Rightarrow> string list \<Rightarrow> string list" where
  "settle i xs = take i xs @ drop (Suc i) xs"

subsection \<open>Plain-styled page\<close>

definition tw_submit :: "tw_state system \<Rightarrow> tw_state system" where
  "tw_submit y =
     y\<lparr>page := tw_handleSubmit_begin (page y),
       in_flight := in_flight y @ [activeTab (page y)]\<rparr>"

fun tw_dispatch :: "ui_event \<Rightarrow> tw_form \<Rightarrow> tw_state system \<Rightarrow> tw_state system" where
  "tw_dispatch ClickLoginTab f y = y\<lparr>page := tw_selectTab ''login'' (page y)\<rparr>"
| "tw_dispatch ClickRegisterTab f y = y\<lparr>page := tw_selectTab ''register'' (page y)\<rparr>"
| "tw_dispatch (ChangeUsername v) f y =
     (if tw_usernameDisabled f then y else y\<lparr>page := (page y)\<lparr>username := v\<rparr>\<rparr>)"
| "tw_dispatch (ChangePassword v) f y =
     (if tw_passwordDisabled f then y else y\<lparr>page := (page y)\<lparr>password := v\<rparr>\<rparr>)"
| "tw_dispatch (KeyDownUsername key) f y =
     (if tw_usernameDisabled f then y else if key = ''Enter'' then tw_submit y else y)"
| "tw_dispatch (KeyDownPassword key) f y =
     (if tw_passwordDisabled f then y else if key = ''Enter'' then tw_submit y else y)"
| "tw_dispatch ClickSubmit f y = (if tw_buttonDisabled f then y else tw_submit y)"

fun tw_step :: "tw_state system \<Rightarrow> action \<Rightarrow> tw_state system" where
  "tw_step y (Ui e) = (case tw_render (page y) of Loader \<Rightarrow> y | Form f \<Rightarrow> tw_dispatch e f y)"
| "tw_step y (ProbeSettles oc) =
     (if probe_pending y
      then y\<lparr>page := fst (checkAuth_resume oc (page y)), probe_pending := False\<rparr>
      else y)"
| "tw_step y (SubmitSettles i oc) =
     (if i < length (in_flight y)
      then y\<lparr>page := fst (tw_handleSubmit_resume (in_flight y ! i) oc (page y)),
             in_flight := settle i (in_flight y)\<rparr>
      else y)"

text \<open>After mount: the effect has called checkAuth, whose request is outstanding.\<close>

definition tw_mounted :: "tw_state system" where
  "tw_mounted = \<lparr>page = checkAuth_begin tw_initial, probe_pending = True, in_flight = []\<rparr>"

definition tw_run :: "action list \<Rightarrow> tw_state system" where
  "tw_run acts = foldl tw_step tw_mounted acts"

subsection \<open>Component-library page\<close>

text \<open>
  The two inputs carry \<^verbatim>\<open>disabled={loading}\<close>. The submit control is the Button with
  \<^verbatim>\<open>loading={loading}\<close> and no \<^verbatim>\<open>disabled\<close>: it shows its loading state and still
  delivers a click to \<^verbatim>\<open>onClick={handleSubmit}\<close>.
\<close>

definition rs_submit :: "rs_state system \<Rightarrow> rs_state system" where
  "rs_submit y =
     (case rs_handleSubmit_begin (page y) of
        (s1, Normal) \<Rightarrow> y\<lparr>page := s1, in_flight := in_flight y @ [activeTab (page y)]\<rparr>
      | (s1, c) \<Rightarrow> y\<lparr>page := s1\<rparr>)"

fun rs_dispatch :: "ui_event \<Rightarrow> rs_form \<Rightarrow> rs_state system \<Rightarrow> rs_state system" where
  "rs_dispatch ClickLoginTab f y = y\<lparr>page := rs_selectTab ''login'' (page y)\<rparr>"
| "rs_dispatch ClickRegisterTab f y = y\<lparr>page := rs_selectTab ''register'' (page y)\<rparr>"
| "rs_dispatch (ChangeUsername v) f y =
     (if rs_usernameDisabled f then y else y\<lparr>page := (page y)\<lparr>username := v\<rparr>\<rparr>)"
| "rs_dispatch (ChangePassword v) f y =
     (if rs_passwordDisabled f then y else y\<lparr>page := (page y)\<lparr>password := v\<rparr>\<rparr>)"
| "rs_dispatch (KeyDownUsername key) f y =
     (if rs_usernameDisabled f then y else if key = ''Enter'' then rs_submit y else y)"
| "rs_dispatch (KeyDownPassword key) f y =
     (if rs_passwordDisabled f then y else if key = ''Enter'' then rs_submit y else y)"
| "rs_dispatch ClickSubmit f y = rs_submit y"

fun rs_step :: "rs_state system \<Rightarrow> action \<Rightarrow> rs_state system" where
  "rs_step y (Ui e) =
     (case rs_render (page y) of Loader \<Rightarrow> y | Form f \<Rightarrow> rs_dispatch e f y)"
| "rs_step y (ProbeSettles oc) =
     (if probe_pending y
      then y\<lparr>page := fst (checkAuth_resume oc (page y)), probe_pending := False\<rparr>
      else y)"
| "rs_step y (SubmitSettles i oc) =
     (if i < length (in_flight y)
      then y\<lparr>page := fst (rs_handleSubmit_resume (in_flight y ! i) oc (page y)),
             in_flight := settle i (in_flight y)\<rparr>
      else y)"

definition rs_mounted :: "rs_state system" where
  "rs_mounted = \<lparr>page = checkAuth_begin rs_initial, probe_pending = True, in_flight = []\<rparr>"

definition rs_run :: "action list \<Rightarrow> rs_state system" where
  "rs_run acts = foldl rs_step rs_mounted acts"

text \<open>Serialized submissions: one request at most, and the page is loading while it is out.\<close>

definition serialized :: "('a page_state_scheme) system \<Rightarrow> bool" where
  "serialized y = (length (in_flight y) \<le> 1 \<and> (in_flight y = [] \<or> loading (page y)))"

text \<open>
  The failures of the session probe: no response, a status outside 200 to 299, or a body
  that is not JSON.
\<close>

definition probe_failed :: "fetch_outcome \<Rightarrow> bool" where
  "probe_failed oc =
     (case oc of Rejected \<Rightarrow> True | Response st b \<Rightarrow> \<not> response_ok st \<or> b = Malformed)"

section \<open>Basic facts about the handlers\<close>

lemmas checkAuth_defs =
  checkAuth_def checkAuth_resume_def checkAuth_begin_def checkAuth_try_def

lemmas tw_submit_defs =
  tw_handleSubmit_def tw_handleSubmit_resume_def tw_handleSubmit_begin_def
  tw_handleSubmit_try_def

lemmas rs_submit_defs =
  rs_handleSubmit_def rs_handleSubmit_resume_def rs_handleSubmit_begin_def
  rs_handleSubmit_try_def push_toast_def

lemmas block_defs = try_finally_def try_catch_def

lemma checkAuth_resume_loading: "loading (fst (checkAuth_resume oc s)) = loading s"
  by (simp add: checkAuth_defs block_defs split: fetch_outcome.splits sum.splits)

lemma checkAuth_resume_checking: "\<not> checkingAuth (fst (checkAuth_resume oc s))"
  by (simp add: checkAuth_defs block_defs split: fetch_outcome.splits sum.splits)

lemma checkAuth_resume_no_throw: "snd (checkAuth_resume oc s) \<noteq> Throw err"
  by (simp add: checkAuth_defs block_defs split: fetch_outcome.splits sum.splits)

lemma tw_resume_not_loading: "\<not> loading (fst (tw_handleSubmit_resume tab oc s))"
  by (simp add: tw_submit_defs block_defs split: fetch_outcome.splits sum.splits)

lemma rs_resume_not_loading: "\<not> loading (fst (rs_handleSubmit_resume tab oc s))"
  by (simp add: rs_submit_defs block_defs Let_def split: fetch_outcome.splits sum.splits)

text \<open>Where both reads succeed, the message is the chain of \<^verbatim>\<open>||\<close>.\<close>

lemma error_message_chain:
  "get_prop data ''detail'' = Inr d \<Longrightarrow> get_prop data ''message'' = Inr m \<Longrightarrow>
   error_message tab data = Inr (js_or d (js_or m (JStr (failed_text tab))))"
  by (simp add: error_message_def js_or_def)

lemma get_prop_defined:
  "data \<noteq> JNull \<Longrightarrow> data \<noteq> Undefined \<Longrightarrow> \<exists>v. get_prop data k = Inr v"
  by (cases data) simp_all

lemma tw_failure_message:
  "\<not> submit_success st \<Longrightarrow> get_prop (json_or_empty b) ''detail'' = Inr d \<Longrightarrow>
   get_prop (json_or_empty b) ''message'' = Inr m \<Longrightarrow>
   error (fst (tw_handleSubmit (Response st b) s)) =
     js_or d (js_or m (JStr (failed_text (activeTab s))))"
  by (simp add: tw_submit_defs block_defs error_message_chain)

lemma rs_failure_message:
  "\<not> submit_success st \<Longrightarrow> get_prop (json_or_empty b) ''detail'' = Inr d \<Longrightarrow>
   get_prop (json_or_empty b) ''message'' = Inr m \<Longrightarrow>
   toasts (fst (rs_handleSubmit_resume tab (Response st b) r)) =
     toasts r @
       [\<lparr>toast_type = Error, toast_content = js_or d (js_or m (JStr (failed_text tab))),
         toast_placement = ''topCenter'', toast_duration = 4000\<rparr>]"
  by (simp add: rs_submit_defs block_defs error_message_chain)

lemma unparseable_body_fallback:
  "error_message tab (json_or_empty Malformed) = Inr (JStr (failed_text tab))"
  by (simp add: error_message_def json_or_empty_def js_or_def)

section \<open>The session probe\<close>

text \<open>
  Claim C1. A probe answered with a 2xx status and a body whose \<^verbatim>\<open>username\<close> is a
  non-empty string is to navigate to \<^verbatim>\<open>/home\<close> without the form ever being rendered.
  The code evaluated at status 200 and body \<^verbatim>\<open>{"username":"alice"}\<close>: the address is
  assigned and the handler returns, but the \<^verbatim>\<open>finally\<close> block still ends the checking
  state, so in both pages the component renders the form, not the spinner.
\<close>

theorem checkAuth_authenticated_renders_form:
  "location_href (fst (checkAuth (Response 200 (Parsed (JObj [(''username'', JStr ''alice'')]))) tw_initial))
     = Some ''/home''
   \<and> snd (checkAuth (Response 200 (Parsed (JObj [(''username'', JStr ''alice'')]))) tw_initial) = Return
   \<and> tw_render (fst (checkAuth (Response 200 (Parsed (JObj [(''username'', JStr ''alice'')]))) tw_initial)) =
       Form \<lparr>tw_errorBox = None, tw_usernameDisabled = False, tw_passwordDisabled = False,
             tw_buttonDisabled = False, tw_buttonLabel = ''Login''\<rparr>
   \<and> location_href (fst (checkAuth (Response 200 (Parsed (JObj [(''username'', JStr ''alice'')]))) rs_initial))
     = Some ''/home''
   \<and> rs_render (fst (checkAuth (Response 200 (Parsed (JObj [(''username'', JStr ''alice'')]))) rs_initial)) =
       Form \<lparr>rs_usernameDisabled = False, rs_passwordDisabled = False,
             rs_buttonLoading = False, rs_buttonLabel = ''Login''\<rparr>"
  by (simp add: checkAuth_defs block_defs response_ok_def tw_initial_def rs_initial_def
      tw_render_def rs_render_def)

text \<open>
  Claim C2. Whenever the probe fails (no response, a status outside the 2xx range, or a
  body that is not JSON), checkAuth completes without an error escaping, assigns no address,
  ends the checking state, and both pages render the form instead of the spinner.
\<close>

theorem checkAuth_failure_renders_form:
  "probe_failed oc \<Longrightarrow>
     snd (checkAuth oc s) = Normal
     \<and> location_href (fst (checkAuth oc s)) = location_href s
     \<and> \<not> checkingAuth (fst (checkAuth oc s))
     \<and> (\<exists>f. tw_render (fst (checkAuth oc t)) = Form f)
     \<and> (\<exists>g. rs_render (fst (checkAuth oc r)) = Form g)"
  by (auto simp add: probe_failed_def checkAuth_defs block_defs tw_render_def rs_render_def
      split: fetch_outcome.splits)

text \<open>
  The probe of an anonymous visitor, answered 401, on the freshly mounted pages.
\<close>

theorem checkAuth_failure_renders_form_witness:
  "probe_failed (Response 401 (Parsed (JObj [(''detail'', JStr ''Not authenticated'')])))
   \<and> snd (checkAuth (Response 401 (Parsed (JObj [(''detail'', JStr ''Not authenticated'')]))) tw_initial) = Normal
   \<and> \<not> checkingAuth (fst (checkAuth (Response 401 (Parsed (JObj [(''detail'', JStr ''Not authenticated'')]))) tw_initial))
   \<and> (\<exists>f. tw_render (fst (checkAuth (Response 401 (Parsed (JObj [(''detail'', JStr ''Not authenticated'')]))) tw_initial)) = Form f)
   \<and> (\<exists>g. rs_render (fst (checkAuth (Response 401 (Parsed (JObj [(''detail'', JStr ''Not authenticated'')]))) rs_initial)) = Form g)"
  using checkAuth_failure_renders_form
    [of "Response 401 (Parsed (JObj [(''detail'', JStr ''Not authenticated'')]))"
        tw_initial tw_initial rs_initial]
  by (simp add: probe_failed_def response_ok_def)

section \<open>Submission\<close>

text \<open>
  Claim C3. The success test of handleSubmit, \<^verbatim>\<open>response.ok || response.status === 201\<close>,
  classifies every status as the single predicate "the status is in the 2xx range" does;
  the second disjunct adds nothing to \<^verbatim>\<open>response.ok\<close>.
\<close>

theorem submit_success_is_2xx:
  "submit_success st = spec_status_2xx st \<and> submit_success st = response_ok st"
  unfolding submit_success_def spec_status_2xx_def response_ok_def by auto

text \<open>
  Claim C4. On a non-2xx response the message shown is to be \<^verbatim>\<open>detail\<close>, else
  \<^verbatim>\<open>message\<close>, else "Login failed" or "Registration failed". The code evaluated at a
  login submission answered with status 400 and the JSON body \<^verbatim>\<open>null\<close>: the body parses,
  the read of \<^verbatim>\<open>data.detail\<close> throws, the handler's own \<^verbatim>\<open>catch\<close> takes it, and both
  pages show the network-error text instead of "Login failed".
\<close>

theorem handleSubmit_null_body_network_error:
  "tw_handleSubmit (Response 400 (Parsed JNull)) tw_initial =
     (tw_initial\<lparr>fetches := [submit_request tw_initial],
                 error := JStr ''Network error. Please try again.''\<rparr>, Normal)
   \<and> toasts (fst (rs_handleSubmit (Response 400 (Parsed JNull))
        (rs_initial\<lparr>username := ''u'', password := ''p''\<rparr>))) =
       [\<lparr>toast_type = Error, toast_content = JStr ''Network error. Please try again.'',
         toast_placement = ''topCenter'', toast_duration = 4000\<rparr>]
   \<and> failed_text (activeTab tw_initial) = ''Login failed''"
  by (simp add: tw_submit_defs rs_submit_defs block_defs submit_success_def response_ok_def
      error_message_def json_or_empty_def tw_initial_def rs_initial_def failed_text_def)

text \<open>
  Claim C5. When the call of \<^verbatim>\<open>fetch\<close> rejects, the message shown is exactly
  "Network error. Please try again." and \<^verbatim>\<open>loading\<close> is false afterwards: as the error
  state of the plain-styled page, and as an error toast of the component-library page (which
  issues the call only with both fields filled).
\<close>

theorem handleSubmit_network_error:
  "error (fst (tw_handleSubmit Rejected s)) = JStr ''Network error. Please try again.''
   \<and> \<not> loading (fst (tw_handleSubmit Rejected s))
   \<and> (username r \<noteq> [] \<and> password r \<noteq> [] \<longrightarrow>
        toasts (fst (rs_handleSubmit Rejected r)) =
          toasts r @
            [\<lparr>toast_type = Error, toast_content = JStr ''Network error. Please try again.'',
              toast_placement = ''topCenter'', toast_duration = 4000\<rparr>]
        \<and> \<not> loading (fst (rs_handleSubmit Rejected r)))"
  by (simp add: tw_submit_defs rs_submit_defs block_defs)

theorem handleSubmit_network_error_witness:
  "username (rs_initial\<lparr>username := ''u'', password := ''p''\<rparr>) \<noteq> []
   \<and> password (rs_initial\<lparr>username := ''u'', password := ''p''\<rparr>) \<noteq> []
   \<and> toasts (fst (rs_handleSubmit Rejected (rs_initial\<lparr>username := ''u'', password := ''p''\<rparr>))) =
       [\<lparr>toast_type = Error, toast_content = JStr ''Network error. Please try again.'',
         toast_placement = ''topCenter'', toast_duration = 4000\<rparr>]
   \<and> \<not> loading (fst (rs_handleSubmit Rejected (rs_initial\<lparr>username := ''u'', password := ''p''\<rparr>)))
   \<and> error (fst (tw_handleSubmit Rejected tw_initial)) = JStr ''Network error. Please try again.''"
  using handleSubmit_network_error
    [of tw_initial "rs_initial\<lparr>username := ''u'', password := ''p''\<rparr>"]
  by (simp add: rs_initial_def)

text \<open>
  Claim C9. Every attempt that issues a request leaves \<^verbatim>\<open>loading\<close> false when it
  completes, whatever the outcome: this holds for the whole handler and for its continuation
  from any state, and on the success path beside the redirect to \<^verbatim>\<open>/home\<close> (assigned at
  once by the plain-styled page, scheduled after 500 ms by the component-library page).
\<close>

theorem handleSubmit_ends_loading:
  "\<not> loading (fst (tw_handleSubmit oc s))
   \<and> \<not> loading (fst (tw_handleSubmit_resume tab oc s))
   \<and> \<not> loading (fst (rs_handleSubmit_resume tab oc r))
   \<and> (username r \<noteq> [] \<and> password r \<noteq> [] \<longrightarrow> \<not> loading (fst (rs_handleSubmit oc r)))
   \<and> (submit_success st \<longrightarrow>
        location_href (fst (tw_handleSubmit (Response st b) s)) = Some ''/home''
        \<and> timeouts (fst (rs_handleSubmit_resume tab (Response st b) r)) =
            timeouts r @ [(500, ''/home'')])"
  by (auto simp add: tw_submit_defs rs_submit_defs block_defs Let_def
      split: fetch_outcome.splits sum.splits)

text \<open>A registration answered 201 with an empty body, both fields filled.\<close>

theorem handleSubmit_ends_loading_witness:
  "username (rs_initial\<lparr>username := ''u'', password := ''p''\<rparr>) \<noteq> []
   \<and> password (rs_initial\<lparr>username := ''u'', password := ''p''\<rparr>) \<noteq> []
   \<and> submit_success 201
   \<and> \<not> loading (fst (rs_handleSubmit (Response 201 Malformed)
          (rs_initial\<lparr>username := ''u'', password := ''p''\<rparr>)))
   \<and> \<not> loading (fst (tw_handleSubmit (Response 201 Malformed) tw_initial))
   \<and> location_href (fst (tw_handleSubmit (Response 201 Malformed) tw_initial)) = Some ''/home''"
  using handleSubmit_ends_loading
    [of "Response 201 Malformed" tw_initial "''register''"
        "rs_initial\<lparr>username := ''u'', password := ''p''\<rparr>" 201 Malformed]
  by (simp add: rs_initial_def submit_success_def response_ok_def)

text \<open>
  Claim C8. In the component-library page an attempt with an empty username or an empty
  password returns at once: no request is issued, \<^verbatim>\<open>loading\<close> is not touched, and the
  warning "Please fill in all fields" is pushed. The plain-styled page has no such check:
  from every state, also with empty fields, handleSubmit sets \<^verbatim>\<open>loading\<close> and issues the
  request.
\<close>

theorem handleSubmit_empty_fields:
  "(username r = [] \<or> password r = [] \<longrightarrow>
      snd (rs_handleSubmit oc r) = Return
      \<and> fetches (fst (rs_handleSubmit oc r)) = fetches r
      \<and> loading (fst (rs_handleSubmit oc r)) = loading r
      \<and> toasts (fst (rs_handleSubmit oc r)) =
          toasts r @
            [\<lparr>toast_type = Warning, toast_content = JStr ''Please fill in all fields'',
              toast_placement = ''topCenter'', toast_duration = 3000\<rparr>])
   \<and> fetches (tw_handleSubmit_begin s) = fetches s @ [submit_request s]
   \<and> loading (tw_handleSubmit_begin s)
   \<and> fetches (fst (tw_handleSubmit oc' s)) = fetches s @ [submit_request s]"
  by (auto simp add: tw_submit_defs rs_submit_defs block_defs
      split: fetch_outcome.splits sum.splits)

text \<open>Empty username and a password, against a server that would have answered 200.\<close>

theorem handleSubmit_empty_fields_witness:
  "(username (rs_initial\<lparr>password := ''p''\<rparr>) = [] \<or> password (rs_initial\<lparr>password := ''p''\<rparr>) = [])
   \<and> fetches (fst (rs_handleSubmit (Response 200 (Parsed (JObj []))) (rs_initial\<lparr>password := ''p''\<rparr>))) = []
   \<and> \<not> loading (fst (rs_handleSubmit (Response 200 (Parsed (JObj []))) (rs_initial\<lparr>password := ''p''\<rparr>)))
   \<and> toasts (fst (rs_handleSubmit (Response 200 (Parsed (JObj []))) (rs_initial\<lparr>password := ''p''\<rparr>))) =
       [\<lparr>toast_type = Warning, toast_content = JStr ''Please fill in all fields'',
         toast_placement = ''topCenter'', toast_duration = 3000\<rparr>]
   \<and> req_body (last (fetches (tw_handleSubmit_begin tw_initial))) = Some ([], [])"
  using handleSubmit_empty_fields
    [of "rs_initial\<lparr>password := ''p''\<rparr>" "Response 200 (Parsed (JObj []))" tw_initial
        "Response 200 (Parsed (JObj []))"]
  by (simp add: rs_initial_def tw_initial_def submit_request_def)

text \<open>
  Claim C10. The message of a non-2xx response is chosen by truthiness: when the body is
  an object whose \<^verbatim>\<open>detail\<close> is present but falsy, the message shown is the body's
  \<^verbatim>\<open>message\<close> if that is truthy (an absent \<^verbatim>\<open>message\<close> reads as \<^verbatim>\<open>undefined\<close>), and
  otherwise the fallback of the mode the page is in: "Login failed" when \<^verbatim>\<open>activeTab\<close> is
  \<^verbatim>\<open>login\<close>, "Registration failed" when it is not. This holds for handleSubmit of the
  plain-styled page from every state, and for handleSubmit of the component-library page
  from every state with both fields filled.
\<close>

theorem error_message_by_truthiness:
  "\<not> submit_success st \<Longrightarrow> map_of (rev kvs) ''detail'' = Some d \<Longrightarrow> \<not> truthy d \<Longrightarrow>
   get_prop (JObj kvs) ''message'' = Inr m \<Longrightarrow>
     error (fst (tw_handleSubmit (Response st (Parsed (JObj kvs))) s)) =
       (if truthy m then m
        else if activeTab s = ''login'' then JStr ''Login failed''
        else JStr ''Registration failed'')
     \<and> (username r \<noteq> [] \<and> password r \<noteq> [] \<longrightarrow>
          toasts (fst (rs_handleSubmit (Response st (Parsed (JObj kvs))) r)) =
            toasts r @
              [\<lparr>toast_type = Error,
                toast_content =
                  (if truthy m then m
                   else if activeTab r = ''login'' then JStr ''Login failed''
                   else JStr ''Registration failed''),
                toast_placement = ''topCenter'', toast_duration = 4000\<rparr>])"
  by (simp add: tw_submit_defs rs_submit_defs block_defs error_message_def json_or_empty_def
      js_or_def failed_text_def)

text \<open>
  Status 400 with \<^verbatim>\<open>{"detail":"","message":"Invalid password"}\<close> in login mode: the
  empty \<^verbatim>\<open>detail\<close> is passed over. Status 409 with \<^verbatim>\<open>{"detail":"","message":""}\<close> in
  register mode: both are passed over and the text is "Registration failed".
\<close>

theorem error_message_by_truthiness_witness:
  "\<not> submit_success 400
   \<and> map_of (rev [(''detail'', JStr []), (''message'', JStr ''Invalid password'')]) ''detail''
       = Some (JStr [])
   \<and> \<not> truthy (JStr [])
   \<and> username (rs_initial\<lparr>username := ''u'', password := ''p''\<rparr>) \<noteq> []
   \<and> password (rs_initial\<lparr>username := ''u'', password := ''p''\<rparr>) \<noteq> []
   \<and> error (fst (tw_handleSubmit
        (Response 400 (Parsed (JObj [(''detail'', JStr []), (''message'', JStr ''Invalid password'')])))
        tw_initial)) = JStr ''Invalid password''
   \<and> toasts (fst (rs_handleSubmit
        (Response 400 (Parsed (JObj [(''detail'', JStr []), (''message'', JStr ''Invalid password'')])))
        (rs_initial\<lparr>username := ''u'', password := ''p''\<rparr>))) =
       [\<lparr>toast_type = Error, toast_content = JStr ''Invalid password'',
         toast_placement = ''topCenter'', toast_duration = 4000\<rparr>]
   \<and> error (fst (tw_handleSubmit
        (Response 409 (Parsed (JObj [(''detail'', JStr []), (''message'', JStr [])])))
        (tw_selectTab ''register'' tw_initial))) = JStr ''Registration failed''
   \<and> toasts (fst (rs_handleSubmit
        (Response 409 (Parsed (JObj [(''detail'', JStr []), (''message'', JStr [])])))
        (rs_selectTab ''register'' (rs_initial\<lparr>username := ''u'', password := ''p''\<rparr>)))) =
       [\<lparr>toast_type = Error, toast_content = JStr ''Registration failed'',
         toast_placement = ''topCenter'', toast_duration = 4000\<rparr>]"
  using
    error_message_by_truthiness
      [of 400 "[(''detail'', JStr []), (''message'', JStr ''Invalid password'')]" "JStr []"
          "JStr ''Invalid password''" tw_initial
          "rs_initial\<lparr>username := ''u'', password := ''p''\<rparr>"]
    error_message_by_truthiness
      [of 409 "[(''detail'', JStr []), (''message'', JStr [])]" "JStr []" "JStr []"
          "tw_selectTab ''register'' tw_initial"
          "rs_selectTab ''register'' (rs_initial\<lparr>username := ''u'', password := ''p''\<rparr>)"]
  by (simp add: submit_success_def response_ok_def rs_initial_def tw_initial_def
      tw_selectTab_def rs_selectTab_def)

section \<open>Switching the mode\<close>

text \<open>
  Claim C6, as the code has it. In the plain-styled page every switch sets the mode and
  clears the error message, and a second switch to the same mode changes nothing. In the
  component-library page a switch only sets the mode: the toasts on display are left as
  they are; there too a second switch to the same mode changes nothing.
\<close>

theorem selectTab_effect:
  "error (tw_selectTab tab s) = JStr []
   \<and> activeTab (tw_selectTab tab s) = tab
   \<and> tw_selectTab tab (tw_selectTab tab s) = tw_selectTab tab s
   \<and> activeTab (rs_selectTab tab r) = tab
   \<and> toasts (rs_selectTab tab r) = toasts r
   \<and> rs_selectTab tab (rs_selectTab tab r) = rs_selectTab tab r"
  by (simp add: tw_selectTab_def rs_selectTab_def)

text \<open>
  Against claim C6 as stated: in the component-library page a login rejected with status
  400 and \<^verbatim>\<open>{"detail":"bad credentials"}\<close> pushes an error toast, and switching to
  register leaves that toast on display.
\<close>

theorem rs_selectTab_keeps_error_toast:
  "toasts (rs_selectTab ''register''
      (fst (rs_handleSubmit (Response 400 (Parsed (JObj [(''detail'', JStr ''bad credentials'')])))
         (rs_initial\<lparr>username := ''u'', password := ''p''\<rparr>)))) =
     [\<lparr>toast_type = Error, toast_content = JStr ''bad credentials'',
       toast_placement = ''topCenter'', toast_duration = 4000\<rparr>]"
  by (simp add: rs_selectTab_def rs_submit_defs block_defs rs_initial_def submit_success_def
      response_ok_def error_message_def json_or_empty_def)

section \<open>One submission at a time\<close>

lemma settle_single: "length xs \<le> 1 \<Longrightarrow> i < length xs \<Longrightarrow> settle i xs = []"
  by (cases xs) (simp_all add: settle_def)

lemma tw_submit_serialized:
  "serialized y \<Longrightarrow> \<not> loading (page y) \<Longrightarrow> serialized (tw_submit y)"
  by (auto simp add: serialized_def tw_submit_def tw_handleSubmit_begin_def)

text \<open>
  In the plain-styled page an event on the rendered form keeps submissions serialized: the
  tabs and the inputs issue nothing, and the three ways into handleSubmit (the button and the
  Enter key in either input) are open only while \<^verbatim>\<open>loading\<close> is false.
\<close>

lemma tw_dispatch_serialized:
  assumes inv: "serialized y" and view: "tw_render (page y) = Form f"
  shows "serialized (tw_dispatch e f y)"
proof (cases e)
  case ClickSubmit
  with inv view show ?thesis
    by (auto simp add: tw_render_def tw_submit_serialized split: if_splits)
next
  case (KeyDownUsername key)
  with inv view show ?thesis
    by (auto simp add: tw_render_def tw_submit_serialized split: if_splits)
next
  case (KeyDownPassword key)
  with inv view show ?thesis
    by (auto simp add: tw_render_def tw_submit_serialized split: if_splits)
qed (use inv in \<open>auto simp add: serialized_def tw_selectTab_def\<close>)

lemma tw_step_serialized:
  assumes inv: "serialized y"
  shows "serialized (tw_step y a)"
proof (cases a)
  case (Ui e)
  with inv show ?thesis
    by (cases "tw_render (page y)") (simp_all add: tw_dispatch_serialized)
next
  case (ProbeSettles oc)
  with inv show ?thesis
    by (simp add: serialized_def checkAuth_resume_loading)
next
  case (SubmitSettles i oc)
  with inv show ?thesis
    by (simp add: serialized_def settle_single)
qed

lemma tw_foldl_serialized: "serialized y \<Longrightarrow> serialized (foldl tw_step y acts)"
  by (induction acts arbitrary: y) (simp_all add: tw_step_serialized)

text \<open>
  The plain-styled page keeps the bound: after every sequence of events and outcomes at
  most one submission request is without an outcome.
\<close>

lemma tw_one_submission_in_flight: "length (in_flight (tw_run acts)) \<le> 1"
proof -
  have "serialized tw_mounted"
    by (simp add: serialized_def tw_mounted_def)
  then have "serialized (tw_run acts)"
    unfolding tw_run_def by (rule tw_foldl_serialized)
  then show ?thesis
    by (simp add: serialized_def)
qed

lemma tw_second_click_ignored:
  "in_flight (tw_run
      [ProbeSettles Rejected, Ui (ChangeUsername ''u''), Ui (ChangePassword ''p''),
       Ui ClickSubmit, Ui ClickSubmit]) = [''login'']"
  by (simp add: tw_run_def tw_mounted_def tw_initial_def checkAuth_defs block_defs tw_render_def
      tw_submit_def tw_handleSubmit_begin_def)

text \<open>
  Claim C7. While a submission is in flight a further submit is to issue no second request,
  in both pages. The component-library page evaluated after mount: the probe fails, the user
  fills in both fields and clicks the Button twice. After the first click the page is loading
  with one request out; the Button is not disabled, the second click reaches handleSubmit,
  which has no check of \<^verbatim>\<open>loading\<close>, and a second request is issued: two submissions are in
  flight, three calls of \<^verbatim>\<open>fetch\<close> were made (the probe and two POSTs).
\<close>

theorem rs_second_click_second_request:
  "in_flight (rs_run
      [ProbeSettles Rejected, Ui (ChangeUsername ''u''), Ui (ChangePassword ''p''),
       Ui ClickSubmit]) = [''login'']
   \<and> loading (page (rs_run
      [ProbeSettles Rejected, Ui (ChangeUsername ''u''), Ui (ChangePassword ''p''),
       Ui ClickSubmit]))
   \<and> in_flight (rs_run
      [ProbeSettles Rejected, Ui (ChangeUsername ''u''), Ui (ChangePassword ''p''),
       Ui ClickSubmit, Ui ClickSubmit]) = [''login'', ''login'']
   \<and> map req_url (fetches (page (rs_run
      [ProbeSettles Rejected, Ui (ChangeUsername ''u''), Ui (ChangePassword ''p''),
       Ui ClickSubmit, Ui ClickSubmit]))) =
       [''/api/v1/auth/whoami'', ''/api/v1/auth/login'', ''/api/v1/auth/login'']"
  by (simp add: rs_run_def rs_mounted_def rs_initial_def checkAuth_defs block_defs rs_render_def
      rs_submit_def rs_handleSubmit_begin_def submit_request_def whoami_request_def
      API_BASE_def endpoint_def)

text \<open>
  The inputs of the component-library page are disabled while it is loading: the Enter key
  in a field issues nothing then.
\<close>

lemma rs_enter_while_loading_ignored:
  "in_flight (rs_run
      [ProbeSettles Rejected, Ui (ChangeUsername ''u''), Ui (ChangePassword ''p''),
       Ui ClickSubmit, Ui (KeyDownPassword ''Enter'')]) = [''login'']"
  by (simp add: rs_run_def rs_mounted_def rs_initial_def checkAuth_defs block_defs rs_render_def
      rs_submit_def rs_handleSubmit_begin_def)

end
